theory Spec2Isabelle
  imports Main "HOL-Library.Sublist"
begin

section \<open>Strings of the source language\<close>

text \<open>
  SQL texts, schema names and messages are \<^typ>\<open>string\<close>s. The character
  classes below are the ASCII part of the ECMAScript ones, which is where SQL text
  lives: \<open>toUpperCase\<close> maps \<open>a..z\<close> to \<open>A..Z\<close> and leaves every other
  character alone, and white space is tab, line feed, vertical tab, form feed,
  carriage return and space. Characters outside ASCII are neither letters nor
  white space here.
\<close>

definition lowerLetters :: string where
  "lowerLetters = ''abcdefghijklmnopqrstuvwxyz''"

definition upperLetters :: string where
  "upperLetters = ''ABCDEFGHIJKLMNOPQRSTUVWXYZ''"

definition isSpace :: "char \<Rightarrow> bool" where
  "isSpace c = (c \<in> set [CHR 0x09, CHR 0x0A, CHR 0x0B, CHR 0x0C, CHR 0x0D, CHR '' ''])"

definition isDigit :: "char \<Rightarrow> bool" where
  "isDigit c = (c \<in> set ''0123456789'')"

definition upperChar :: "char \<Rightarrow> char" where
  "upperChar c = (case map_of (zip lowerLetters upperLetters) c of Some u \<Rightarrow> u | None \<Rightarrow> c)"

definition toUpperCase :: "string \<Rightarrow> string" where
  "toUpperCase s = map upperChar s"

definition trim :: "string \<Rightarrow> string" where
  "trim s = rev (dropWhile isSpace (rev (dropWhile isSpace s)))"

text \<open>\<open>s.includes(k)\<close> and \<open>s.startsWith(k)\<close>.\<close>

definition includesStr :: "string \<Rightarrow> string \<Rightarrow> bool" where
  "includesStr s k = sublist k s"

definition startsWith :: "string \<Rightarrow> string \<Rightarrow> bool" where
  "startsWith s k = prefix k s"

section \<open>Validation verdicts\<close>

record ValidationResult =
  isValid :: bool
  errors :: "string list"
  warnings :: "string list"

section \<open>The syntax validator\<close>

definition dangerousKeywords :: "string list" where
  "dangerousKeywords =
     [''DROP'', ''DELETE'', ''UPDATE'', ''INSERT'',
      ''TRUNCATE'', ''ALTER'', ''CREATE'', ''EXEC'']"

definition dangerousMessage :: "string \<Rightarrow> string" where
  "dangerousMessage keyword =
     ''Dangerous keyword detected: '' @ keyword @ ''. Only SELECT queries are allowed.''"

text \<open>The number of matches of the one-character patterns \<open>/\(/g\<close> and \<open>/\)/g\<close>.\<close>

definition openParens :: "string \<Rightarrow> nat" where
  "openParens sql = length (filter (\<lambda>c. c = CHR ''('') sql)"

definition closeParens :: "string \<Rightarrow> nat" where
  "closeParens sql = length (filter (\<lambda>c. c = CHR '')'') sql)"

definition validateSyntax :: "string \<Rightarrow> ValidationResult" where
  "validateSyntax sql =
     (if sql = [] \<or> trim sql = [] then
        \<lparr>isValid = False, errors = [''SQL query cannot be empty''], warnings = []\<rparr>
      else
        let upperSQL = toUpperCase sql;
            e1 = (if \<not> startsWith (trim upperSQL) ''SELECT''
                  then [''Query must start with SELECT''] else []);
            e2 = (if \<not> includesStr upperSQL ''FROM''
                  then [''Query must include FROM clause''] else []);
            e3 = map dangerousMessage (filter (includesStr upperSQL) dangerousKeywords);
            e4 = (if openParens sql \<noteq> closeParens sql
                  then [''Unbalanced parentheses in query''] else []);
            errs = e1 @ e2 @ e3 @ e4;
            warns = (if \<not> includesStr upperSQL ''DISTINCT''
                     then [''Consider using DISTINCT to avoid duplicate records''] else [])
        in \<lparr>isValid = (errs = []), errors = errs, warnings = warns\<rparr>)"

section \<open>Global pattern matching\<close>

text \<open>
  \<open>text.matchAll(pattern)\<close> for a pattern with the \<open>g\<close> flag. A pattern is given by
  its matcher at one position of the text: the captured groups together with the
  text left behind the match, or \<open>None\<close> when the pattern does not match there.
  The scan is leftmost first: after a match it resumes behind the match (one
  character further on when the match was empty), after a failure one character
  further on.
\<close>

function matchAll :: "(string \<Rightarrow> ('a \<times> string) option) \<Rightarrow> string \<Rightarrow> 'a list" where
  "matchAll m [] = []"
| "matchAll m (c # cs) =
     (case m (c # cs) of
        None \<Rightarrow> matchAll m cs
      | Some (cap, rest) \<Rightarrow>
          cap # matchAll m (if length rest < Suc (length cs) then rest else cs))"
  by pat_completeness auto
termination
  by (relation "measure (\<lambda>(m, t). length t)") (auto split: if_splits)

text \<open>
  The class \<open>[A-Z_]\<close> under the \<open>i\<close> flag: a character belongs to it when its
  upper-case form does.
\<close>

definition isNameChar :: "char \<Rightarrow> bool" where
  "isNameChar c = (upperChar c \<in> set upperLetters \<or> c = CHR ''_'')"

text \<open>
  \<open>/(?:FROM|JOIN)\s+([A-Z_]+)/gi\<close> at one position. White space and name
  characters are disjoint, so the greedy quantifiers never give anything back.
\<close>

definition tablePattern :: "string \<Rightarrow> (string \<times> string) option" where
  "tablePattern t =
     (let kw = toUpperCase (take 4 t);
          r = drop 4 t;
          sp = takeWhile isSpace r;
          r' = dropWhile isSpace r;
          name = takeWhile isNameChar r'
      in if (kw = ''FROM'' \<or> kw = ''JOIN'') \<and> sp \<noteq> [] \<and> name \<noteq> []
         then Some (name, dropWhile isNameChar r') else None)"

text \<open>\<open>/([A-Z_]+)\.([A-Z_]+)/gi\<close> at one position.\<close>

definition fieldPattern :: "string \<Rightarrow> ((string \<times> string) \<times> string) option" where
  "fieldPattern t =
     (let tn = takeWhile isNameChar t in
      case dropWhile isNameChar t of
        [] \<Rightarrow> None
      | d # r \<Rightarrow>
          let fn = takeWhile isNameChar r
          in if tn \<noteq> [] \<and> d = CHR ''.'' \<and> fn \<noteq> []
             then Some ((tn, fn), dropWhile isNameChar r) else None)"

section \<open>Schemas\<close>

text \<open>
  A schema as \<open>JSON.parse\<close> returns it: the tables in the order of
  \<open>Object.keys\<close>, each with \<open>Object.keys(table.fields)\<close> as \<open>fieldNames\<close>
  (\<open>None\<close> when the table entry has no \<open>fields\<close>).
\<close>

record TableDefinition =
  description :: "string option"
  fieldNames :: "string list option"

record Schema =
  version :: string
  tables :: "(string \<times> TableDefinition) list"

text \<open>
  \<open>loadSchema\<close> reads \<open>schemas/<id>.json\<close>; the files are the parameter
  \<open>files\<close>, and a missing or unreadable file raises \<open>Schema not found\<close>.
\<close>

definition loadSchema :: "(string \<Rightarrow> Schema option) \<Rightarrow> string \<Rightarrow> string + Schema" where
  "loadSchema files schemaId =
     (case files schemaId of
        None \<Rightarrow> Inl (''Schema not found: '' @ schemaId)
      | Some schema \<Rightarrow> Inr schema)"

text \<open>\<open>xs.join(sep)\<close>.\<close>

fun join :: "string \<Rightarrow> string list \<Rightarrow> string" where
  "join sep [] = []"
| "join sep [x] = x"
| "join sep (x # y # ys) = x @ sep @ join sep (y # ys)"

section \<open>The schema-conformance validator\<close>

definition invalidTableMessage :: "string list \<Rightarrow> string \<Rightarrow> string" where
  "invalidTableMessage validTables tableName =
     ''Invalid table: '' @ tableName @ ''. Valid tables: '' @ join '', '' validTables"

definition fieldWarningMessage :: "string \<Rightarrow> string \<Rightarrow> string" where
  "fieldWarningMessage fieldName tableName =
     ''Field '' @ fieldName @ '' may not exist in table '' @ tableName"

text \<open>The body of the loop over the \<open>table.field\<close> matches: the warnings one match adds.\<close>

definition fieldWarnings :: "Schema \<Rightarrow> string \<times> string \<Rightarrow> string list" where
  "fieldWarnings schema m =
     (let tableName = toUpperCase (fst m);
          fieldName = toUpperCase (snd m)
      in case map_of (tables schema) tableName of
           None \<Rightarrow> []
         | Some table \<Rightarrow>
             (case fieldNames table of
                None \<Rightarrow> []
              | Some fs \<Rightarrow>
                  if fieldName \<in> set (map toUpperCase fs) then []
                  else [fieldWarningMessage fieldName tableName]))"

definition validateAgainstSchema ::
  "(string \<Rightarrow> Schema option) \<Rightarrow> string \<Rightarrow> string \<Rightarrow> ValidationResult" where
  "validateAgainstSchema files sql schemaId =
     (case loadSchema files schemaId of
        Inl message \<Rightarrow> \<lparr>isValid = False, errors = [message], warnings = []\<rparr>
      | Inr schema \<Rightarrow>
          let validTables = map fst (tables schema);
              usedTables = map toUpperCase (matchAll tablePattern sql);
              e1 = map (invalidTableMessage validTables)
                     (filter (\<lambda>tableName. tableName \<notin> set (map toUpperCase validTables))
                        usedTables);
              e2 = (if usedTables = [] then [''No valid tables found in query''] else []);
              errs = e1 @ e2;
              warns = concat (map (fieldWarnings schema) (matchAll fieldPattern sql))
          in \<lparr>isValid = (errs = []), errors = errs, warnings = warns\<rparr>)"

section \<open>Merging the two verdicts\<close>

text \<open>
  The generation route validates the candidate query with both validators and
  merges the two verdicts.
\<close>

definition mergedValidation ::
  "(string \<Rightarrow> Schema option) \<Rightarrow> string \<Rightarrow> string \<Rightarrow> ValidationResult" where
  "mergedValidation files sqlQuery schema =
     (let syntaxValidation = validateSyntax sqlQuery;
          schemaValidation = validateAgainstSchema files sqlQuery schema
      in \<lparr>isValid = isValid syntaxValidation \<and> isValid schemaValidation,
          errors = errors syntaxValidation @ errors schemaValidation,
          warnings = warnings syntaxValidation @ warnings schemaValidation\<rparr>)"

section \<open>The plan analyser\<close>

datatype Complexity = Low | Medium | High

record ExplainAnalysis =
  estimatedRows :: int
  summary :: string
  operations :: "string list"
  complexity :: Complexity

text \<open>
  A row of the plan as the analyser reads it. \<open>Unreadable\<close> is a row on which
  reading a column or rendering it as text raises: \<open>null\<close> or \<open>undefined\<close>,
  a throwing getter, a column that has no text. Otherwise the columns \<open>step\<close>,
  \<open>plan\<close> and \<open>PLAN\<close> hold their text, \<open>None\<close> when the column is missing
  or falsy, and \<open>stringify\<close> is the text of \<open>JSON.stringify(row)\<close>, \<open>None\<close>
  when that call raises (a cyclic row).
\<close>

datatype PlanRow =
  Unreadable
| PlanRow (step: "string option") (plan: "string option") (PLAN: "string option")
    (stringify: "string option")

text \<open>\<open>row['step'] || row['plan'] || row['PLAN'] || JSON.stringify(row)\<close>; \<open>None\<close> when it raises.\<close>

fun rowText :: "PlanRow \<Rightarrow> string option" where
  "rowText Unreadable = None"
| "rowText (PlanRow (Some s) p P j) = Some s"
| "rowText (PlanRow None (Some p) P j) = Some p"
| "rowText (PlanRow None None (Some P) j) = Some P"
| "rowText (PlanRow None None None j) = j"

fun rowTexts :: "PlanRow list \<Rightarrow> string list option" where
  "rowTexts [] = Some []"
| "rowTexts (r # rs) =
     (case rowText r of
        None \<Rightarrow> None
      | Some t \<Rightarrow> (case rowTexts rs of None \<Rightarrow> None | Some ts \<Rightarrow> Some (t # ts)))"

text \<open>
  \<open>/rows[=:]\s*(\d+)/gi\<close> and its two siblings at one position; \<open>kw\<close> is the
  leading word of the pattern.
\<close>

definition rowPattern :: "string \<Rightarrow> string \<Rightarrow> (string \<times> string) option" where
  "rowPattern kw t =
     (case drop (length kw) t of
        [] \<Rightarrow> None
      | s # r \<Rightarrow>
          let r' = dropWhile isSpace r;
              ds = takeWhile isDigit r'
          in if toUpperCase (take (length kw) t) = toUpperCase kw
                \<and> (s = CHR ''='' \<or> s = CHR '':'') \<and> ds \<noteq> []
             then Some (ds, dropWhile isDigit r') else None)"

text \<open>
  \<open>parseInt(digits, 10)\<close> on a run of decimal digits. Numbers are exact integers
  here; the doubles of the source agree with them up to \<open>2^53\<close>.
\<close>

definition digitValue :: "char \<Rightarrow> int" where
  "digitValue c = int (length (takeWhile (\<lambda>d. d \<noteq> c) ''0123456789''))"

definition parseInt :: "string \<Rightarrow> int" where
  "parseInt ds = foldl (\<lambda>n c. 10 * n + digitValue c) 0 ds"

definition extractRowEstimates :: "string \<Rightarrow> int list" where
  "extractRowEstimates planText =
     concat (map (\<lambda>kw. map parseInt (matchAll (rowPattern kw) planText))
               [''rows'', ''cardinality'', ''output''])"

definition operationPatterns :: "string list" where
  "operationPatterns =
     [''TableScan'', ''Filter'', ''Join'', ''Aggregate'', ''Sort'',
      ''Limit'', ''Distinct'', ''Project'', ''GroupBy'']"

definition extractOperations :: "string \<Rightarrow> string list" where
  "extractOperations planText = filter (includesStr planText) operationPatterns"

definition determineComplexity :: "string list \<Rightarrow> int \<Rightarrow> Complexity" where
  "determineComplexity ops rows =
     (if rows > 1000000 then High
      else if ''Join'' \<in> set ops \<and> ''Aggregate'' \<in> set ops then High
      else if rows > 100000 then Medium
      else if ''Join'' \<in> set ops \<or> ''Aggregate'' \<in> set ops then Medium
      else Low)"

text \<open>The decimal form of a natural number, as a template literal renders it.\<close>

fun showNat :: "nat \<Rightarrow> string" where
  "showNat n =
     (if n < 10 then [''0123456789'' ! n]
      else showNat (n div 10) @ [''0123456789'' ! (n mod 10)])"

declare showNat.simps [simp del]

text \<open>
  What the host bounds: the number of arguments of a call, which the spread in
  \<open>Math.max(...rowEstimates, 0)\<close> can exceed, and the length of a string,
  which the joined plan text can exceed. Both are a \<open>RangeError\<close>; a row
  that cannot be read is a \<open>TypeError\<close>.
\<close>

record Host =
  maxArguments :: nat
  maxStringLength :: nat

datatype PlanError = TypeError | RangeError

text \<open>
  The \<open>try\<close> block of \<open>parseExplainOutput\<close>, with what it raises as a value.
  \<open>toLocaleString\<close> is the host's rendering of the row estimate.
\<close>

definition analysePlan ::
  "Host \<Rightarrow> (int \<Rightarrow> string) \<Rightarrow> PlanRow list \<Rightarrow> PlanError + ExplainAnalysis" where
  "analysePlan host toLocaleString explainRows =
     (case rowTexts explainRows of
        None \<Rightarrow> Inl TypeError
      | Some texts \<Rightarrow>
          let planText = join [CHR 0x0A] texts
          in if maxStringLength host < length planText then Inl RangeError
             else
               let rowEstimates = extractRowEstimates planText
               in if maxArguments host < Suc (length rowEstimates) then Inl RangeError
                  else
                    let rows = foldr max rowEstimates 0;
                        ops = extractOperations planText
                    in Inr \<lparr>estimatedRows = rows,
                           summary = ''Query will process approximately ''
                             @ toLocaleString rows @ '' rows using ''
                             @ showNat (length ops) @ '' operations'',
                           operations = ops,
                           complexity = determineComplexity ops rows\<rparr>)"

text \<open>The \<open>catch\<close> block answers every error with the same analysis.\<close>

definition parseExplainOutput ::
  "Host \<Rightarrow> (int \<Rightarrow> string) \<Rightarrow> PlanRow list \<Rightarrow> ExplainAnalysis" where
  "parseExplainOutput host toLocaleString explainRows =
     (case analysePlan host toLocaleString explainRows of
        Inr analysis \<Rightarrow> analysis
      | Inl error \<Rightarrow>
          \<lparr>estimatedRows = 0, summary = ''Unable to analyze query plan'',
           operations = [], complexity = Medium\<rparr>)"

section \<open>The preview executor\<close>

text \<open>
  The text that \<open>previewQuery\<close> hands to \<open>connection.executeQuery\<close>. The row
  maximum is a number of the source, whatever the caller passes, and
  \<open>numberToString\<close> is the host's rendering of it in the template literal.
\<close>

definition previewSQL :: "('n \<Rightarrow> string) \<Rightarrow> string \<Rightarrow> 'n \<Rightarrow> string" where
  "previewSQL numberToString sql maxRows =
     (let trimmed = trim sql
      in if \<not> includesStr (toUpperCase trimmed) ''LIMIT''
         then trimmed @ '' LIMIT '' @ numberToString maxRows
         else trimmed)"

section \<open>The generation adapter\<close>

text \<open>
  \<open>responseText.match(/\{[\s\S]*\}/)\<close>: the leftmost opening brace that has a
  closing brace behind it, up to the last closing brace of the text.
\<close>

definition jsonMatch :: "string \<Rightarrow> string option" where
  "jsonMatch responseText =
     (let fromBrace = dropWhile (\<lambda>c. c \<noteq> CHR ''{'') responseText
      in if CHR ''}'' \<in> set fromBrace
         then Some (rev (dropWhile (\<lambda>c. c \<noteq> CHR ''}'') (rev fromBrace)))
         else None)"

datatype GenerationError =
  ExtractionError string
| JsonSyntaxError

text \<open>
  Extraction followed by \<open>JSON.parse\<close>, which is the parameter \<open>jsonParse\<close>
  (\<open>None\<close> when it raises). Either error reaches the route's \<open>catch\<close>, which
  answers with an error and no result.
\<close>

definition parseResponse :: "(string \<Rightarrow> 'j option) \<Rightarrow> string \<Rightarrow> GenerationError + 'j" where
  "parseResponse jsonParse responseText =
     (case jsonMatch responseText of
        None \<Rightarrow> Inl (ExtractionError ''Failed to extract JSON from Claude response'')
      | Some candidate \<Rightarrow>
          (case jsonParse candidate of
             None \<Rightarrow> Inl JsonSyntaxError
           | Some result \<Rightarrow> Inr result))"

section \<open>Notions of the specification\<close>

text \<open>
  The specification speaks of the occurrences of a keyword, of the first
  top-level object of a response, of a row-limit clause and of a text that
  contains a keyword. The code has no function for any of them; the definitions
  below follow the specification's words, to be compared with what the code
  computes.
\<close>

text \<open>The number of positions of \<open>s\<close> at which \<open>k\<close> occurs.\<close>

fun occurrences :: "string \<Rightarrow> string \<Rightarrow> nat" where
  "occurrences k [] = (if k = [] then 1 else 0)"
| "occurrences k (c # cs) = (if prefix k (c # cs) then 1 else 0) + occurrences k cs"

text \<open>
  The first top-level \<open>{...}\<close> of a text: from its first opening brace to the
  brace that closes it, \<open>None\<close> when there is no such pair. \<open>closeBrace d\<close>
  reads on with \<open>d\<close> inner braces open.
\<close>

fun closeBrace :: "nat \<Rightarrow> string \<Rightarrow> string option" where
  "closeBrace d [] = None"
| "closeBrace d (c # cs) =
     (if c = CHR ''{'' then map_option ((#) c) (closeBrace (Suc d) cs)
      else if c = CHR ''}'' then
        (case d of 0 \<Rightarrow> Some [c] | Suc d' \<Rightarrow> map_option ((#) c) (closeBrace d' cs))
      else map_option ((#) c) (closeBrace d cs))"

definition firstTopLevelObject :: "string \<Rightarrow> string option" where
  "firstTopLevelObject text =
     (case dropWhile (\<lambda>c. c \<noteq> CHR ''{'') text of
        [] \<Rightarrow> None
      | c # cs \<Rightarrow> map_option ((#) c) (closeBrace 0 cs))"

text \<open>
  The words of a text are its maximal runs of letters, digits and underscores;
  \<open>splitWords w\<close> has read the word \<open>w\<close> so far. An explicit row-limit clause
  is read as the keyword \<open>LIMIT\<close> standing as a word of the text, in any
  letter case.
\<close>

definition isWordChar :: "char \<Rightarrow> bool" where
  "isWordChar c = (isNameChar c \<or> isDigit c)"

fun splitWords :: "string \<Rightarrow> string \<Rightarrow> string list" where
  "splitWords w [] = (if w = [] then [] else [w])"
| "splitWords w (c # cs) =
     (if isWordChar c then splitWords (w @ [c]) cs
      else (if w = [] then [] else [w]) @ splitWords [] cs)"

definition hasLimitClause :: "string \<Rightarrow> bool" where
  "hasLimitClause sql = (''LIMIT'' \<in> set (splitWords [] (toUpperCase sql)))"


section \<open>Sample data\<close>

text \<open>
  A schema store for the examples, with upper-case table and field names as the
  repository's schemas have them.
\<close>

definition demoSchema :: Schema where
  "demoSchema =
     \<lparr>version = ''2.0'',
      tables =
        [(''DATA'', \<lparr>description = None,
                     fieldNames = Some [''HOUSEHOLD_ID'', ''AGE'', ''INCOME_HH'']\<rparr>),
         (''EMAIL'', \<lparr>description = None,
                      fieldNames = Some [''HOUSEHOLD_ID'', ''EMAILOPTIN'']\<rparr>)]\<rparr>"

definition demoFiles :: "string \<Rightarrow> Schema option" where
  "demoFiles schemaId = (if schemaId = ''sig-v2'' then Some demoSchema else None)"

text \<open>A host that takes three arguments and strings of forty characters.\<close>

definition smallHost :: Host where
  "smallHost = \<lparr>maxArguments = 3, maxStringLength = 40\<rparr>"

text \<open>A stand-in for \<open>JSON.parse\<close> that accepts the empty object only.\<close>

definition parseEmptyObject :: "string \<Rightarrow> unit option" where
  "parseEmptyObject s = (if s = ''{}'' then Some () else None)"

section \<open>Properties of the syntax validator\<close>

lemmas char_defs = upperChar_def lowerLetters_def upperLetters_def isSpace_def isDigit_def

lemma upperChar_space: "isSpace (upperChar c) = isSpace c"
  by (auto simp: char_defs split: option.splits if_splits)

lemma upperChar_idem: "upperChar (upperChar c) = upperChar c"
  by (auto simp: char_defs split: option.splits if_splits)

lemma upperChar_open: "(upperChar c = CHR ''('') = (c = CHR ''('')"
  by (auto simp: char_defs split: option.splits if_splits)

lemma upperChar_close: "(upperChar c = CHR '')'') = (c = CHR '')'')"
  by (auto simp: char_defs split: option.splits if_splits)

lemma toUpperCase_idem: "toUpperCase (toUpperCase s) = toUpperCase s"
  by (simp add: toUpperCase_def upperChar_idem)

lemma dropWhile_space_upper:
  "dropWhile isSpace (toUpperCase s) = toUpperCase (dropWhile isSpace s)"
  by (induction s) (simp_all add: toUpperCase_def upperChar_space)

lemma trim_toUpperCase: "trim (toUpperCase s) = toUpperCase (trim s)"
proof -
  have "rev (toUpperCase s) = toUpperCase (rev s)" for s
    by (simp add: toUpperCase_def rev_map)
  then show ?thesis
    by (simp add: trim_def dropWhile_space_upper)
qed

lemma trim_Nil_iff: "trim s = [] \<longleftrightarrow> (\<forall>c\<in>set s. isSpace c)"
proof
  assume "trim s = []"
  then have all: "\<forall>c\<in>set (dropWhile isSpace s). isSpace c"
    unfolding trim_def by simp
  have "dropWhile isSpace s = []"
  proof (cases "dropWhile isSpace s")
    case Nil then show ?thesis .
  next
    case (Cons a as)
    then have "\<not> isSpace a" using hd_dropWhile[of isSpace s] by simp
    with all Cons show ?thesis by simp
  qed
  then show "\<forall>c\<in>set s. isSpace c" by simp
next
  assume "\<forall>c\<in>set s. isSpace c"
  then have "\<forall>c\<in>set (dropWhile isSpace s). isSpace c"
    by (meson set_dropWhileD)
  then show "trim s = []" unfolding trim_def by simp
qed

lemma openParens_upper: "openParens (toUpperCase s) = openParens s"
  by (induction s) (simp_all add: openParens_def toUpperCase_def upperChar_open)

lemma closeParens_upper: "closeParens (toUpperCase s) = closeParens s"
  by (induction s) (simp_all add: closeParens_def toUpperCase_def upperChar_close)

lemma validateSyntax_upper: "validateSyntax (toUpperCase sql) = validateSyntax sql"
proof -
  have e: "(toUpperCase sql = []) = (sql = [])" by (simp add: toUpperCase_def)
  have t: "(trim (toUpperCase sql) = []) = (trim sql = [])"
    by (simp add: trim_toUpperCase) (simp add: toUpperCase_def)
  show ?thesis
    unfolding validateSyntax_def e t toUpperCase_idem openParens_upper closeParens_upper ..
qed





text \<open>
  C10. Two texts that are equal up to the case of their ASCII letters get the
  same verdict: the same validity flag, the same errors and the same warnings.
\<close>

theorem validateSyntax_case_invariant:
  "toUpperCase s = toUpperCase t \<Longrightarrow> validateSyntax s = validateSyntax t"
  by (metis validateSyntax_upper)

theorem validateSyntax_case_invariant_witness:
  "toUpperCase ''select Id from Data'' = toUpperCase ''SELECT ID FROM data'' \<and>
   validateSyntax ''select Id from Data'' = validateSyntax ''SELECT ID FROM data''"
proof -
  have h: "toUpperCase ''select Id from Data'' = toUpperCase ''SELECT ID FROM data''"
    by (simp add: toUpperCase_def char_defs)
  from h validateSyntax_case_invariant [OF h] show ?thesis by simp
qed

lemma validateSyntax_isValid: "isValid (validateSyntax sql) = (errors (validateSyntax sql) = [])"
  by (simp add: validateSyntax_def Let_def)

lemma validateAgainstSchema_isValid:
  "isValid (validateAgainstSchema files sql sid) = (errors (validateAgainstSchema files sql sid) = [])"
  by (simp add: validateAgainstSchema_def Let_def split: sum.splits)

lemma dangerousMessage_inj: "(dangerousMessage a = dangerousMessage b) = (a = b)"
  by (simp add: dangerousMessage_def)

lemma dangerousMessage_other:
  "dangerousMessage k \<noteq> ''Query must start with SELECT''"
  "dangerousMessage k \<noteq> ''Query must include FROM clause''"
  "dangerousMessage k \<noteq> ''Unbalanced parentheses in query''"
  by (simp_all add: dangerousMessage_def)

lemma count_list_filter: "count_list (filter P xs) k = (if P k then count_list xs k else 0)"
  by (induction xs) auto

lemma distinct_count_list: "distinct xs \<Longrightarrow> x \<in> set xs \<Longrightarrow> count_list xs x = 1"
  by (induction xs) auto

lemma distinct_dangerousKeywords: "distinct dangerousKeywords"
  by (simp add: dangerousKeywords_def)

lemma count_dangerousKeywords: "k \<in> set dangerousKeywords \<Longrightarrow> count_list dangerousKeywords k = 1"
  by (rule distinct_count_list [OF distinct_dangerousKeywords])

lemma dangerousKeywords_letter:
  "k \<in> set dangerousKeywords \<Longrightarrow> k \<noteq> [] \<and> \<not> isSpace (hd k) \<and> \<not> isSpace (last k)"
  unfolding dangerousKeywords_def isSpace_def by (elim set_ConsD [elim_format] disjE) simp_all

lemma includesStr_upper: "includesStr s w \<Longrightarrow> includesStr (toUpperCase s) (toUpperCase w)"
  unfolding includesStr_def toUpperCase_def by (rule map_mono_sublist)

lemma includesStr_not_blank:
  assumes "includesStr (toUpperCase sql) k" and "k \<noteq> []" and "\<not> isSpace (hd k)"
  shows "sql \<noteq> [] \<and> trim sql \<noteq> []"
proof -
  from assms(2,3) obtain c where c: "c \<in> set k" "\<not> isSpace c"
    using hd_in_set by blast
  from assms(1) have "set k \<subseteq> set (toUpperCase sql)"
    by (auto simp: includesStr_def sublist_def)
  with c obtain d where d: "d \<in> set sql" "c = upperChar d"
    by (auto simp: toUpperCase_def)
  with c have "\<not> isSpace d" by (simp add: upperChar_space)
  with d show ?thesis by (auto simp: trim_Nil_iff)
qed

text \<open>
  C1, as the code has it. A text that contains a deny-listed keyword, in any
  letter case and at any position, is invalid, and the errors hold the message
  naming that keyword exactly once, however often the keyword occurs.
\<close>

theorem validateSyntax_keyword_once:
  assumes "k \<in> set dangerousKeywords" and "includesStr sql w" and "toUpperCase w = k"
  shows "\<not> isValid (validateSyntax sql) \<and>
    count_list (errors (validateSyntax sql)) (dangerousMessage k) = 1"
proof -
  from assms(2,3) have found: "includesStr (toUpperCase sql) k"
    using includesStr_upper by blast
  with assms(1) have nb: "sql \<noteq> []" "trim sql \<noteq> []"
    using includesStr_not_blank dangerousKeywords_letter by blast+
  have "count_list (map dangerousMessage (filter (includesStr (toUpperCase sql)) dangerousKeywords))
      (dangerousMessage k) = count_list (filter (includesStr (toUpperCase sql)) dangerousKeywords) k"
    by (rule count_list_map_conv) (simp add: inj_def dangerousMessage_inj)
  also have "\<dots> = 1"
    using found assms(1) by (simp add: count_list_filter count_dangerousKeywords)
  finally have one: "count_list (map dangerousMessage
      (filter (includesStr (toUpperCase sql)) dangerousKeywords)) (dangerousMessage k) = 1" .
  from nb one have c: "count_list (errors (validateSyntax sql)) (dangerousMessage k) = 1"
    by (simp add: validateSyntax_def Let_def dangerousMessage_other)
  then have "errors (validateSyntax sql) \<noteq> []" by auto
  with c show ?thesis by (simp add: validateSyntax_isValid)
qed

theorem validateSyntax_keyword_once_witness:
  "''DELETE'' \<in> set dangerousKeywords \<and>
   includesStr ''select a from t; Delete from t'' ''Delete'' \<and>
   toUpperCase ''Delete'' = ''DELETE'' \<and>
   \<not> isValid (validateSyntax ''select a from t; Delete from t'') \<and>
   count_list (errors (validateSyntax ''select a from t; Delete from t''))
     ''Dangerous keyword detected: DELETE. Only SELECT queries are allowed.'' = 1"
proof -
  have h1: "''DELETE'' \<in> set dangerousKeywords" by (simp add: dangerousKeywords_def)
  have h2: "includesStr ''select a from t; Delete from t'' ''Delete''"
    by (simp add: includesStr_def sublist_Cons_right)
  have h3: "toUpperCase ''Delete'' = ''DELETE''" by (simp add: toUpperCase_def char_defs)
  from validateSyntax_keyword_once [OF h1 h2 h3] h1 h2 h3
  show ?thesis by (simp add: dangerousMessage_def)
qed

text \<open>
  C1 as stated fails: this text holds two occurrences of DROP and gets one error.
\<close>

theorem validateSyntax_occurrences_counterexample:
  "occurrences ''DROP'' (toUpperCase ''SELECT a FROM t; DROP TABLE t; drop table u'') = 2 \<and>
   errors (validateSyntax ''SELECT a FROM t; DROP TABLE t; drop table u'') =
     [''Dangerous keyword detected: DROP. Only SELECT queries are allowed.'']"
  by code_simp

section \<open>Properties of the merged verdict\<close>

text \<open>
  C2. The merged verdict is valid exactly when both validators' verdicts are,
  its errors are the syntax validator's followed by the schema validator's, and
  likewise its warnings; so it is valid exactly when it holds no error.
\<close>

theorem mergedValidation_concatenates:
  "isValid (mergedValidation files sql sid) =
     (isValid (validateSyntax sql) \<and> isValid (validateAgainstSchema files sql sid)) \<and>
   errors (mergedValidation files sql sid) =
     errors (validateSyntax sql) @ errors (validateAgainstSchema files sql sid) \<and>
   warnings (mergedValidation files sql sid) =
     warnings (validateSyntax sql) @ warnings (validateAgainstSchema files sql sid) \<and>
   isValid (mergedValidation files sql sid) = (errors (mergedValidation files sql sid) = [])"
  by (simp add: mergedValidation_def Let_def validateSyntax_isValid validateAgainstSchema_isValid)

section \<open>Properties of the plan analyser\<close>

text \<open>
  C4. The complexity class follows the fixed precedence: more than 1,000,000
  rows is high; otherwise Join together with Aggregate is high; otherwise more
  than 100,000 rows is medium; otherwise Join or Aggregate is medium; otherwise
  low. So 1,500,000 rows without join and aggregate is high, 50,000 rows with
  both is high, 150,000 rows with a filter only is medium and 500 rows with a
  filter only is low.
\<close>

theorem determineComplexity_precedence:
  "(rows > 1000000 \<longrightarrow> determineComplexity ops rows = High) \<and>
   (\<not> rows > 1000000 \<and> ''Join'' \<in> set ops \<and> ''Aggregate'' \<in> set ops \<longrightarrow>
      determineComplexity ops rows = High) \<and>
   (\<not> rows > 1000000 \<and> \<not> (''Join'' \<in> set ops \<and> ''Aggregate'' \<in> set ops) \<and> rows > 100000 \<longrightarrow>
      determineComplexity ops rows = Medium) \<and>
   (\<not> rows > 1000000 \<and> \<not> (''Join'' \<in> set ops \<and> ''Aggregate'' \<in> set ops) \<and>
    \<not> rows > 100000 \<and> (''Join'' \<in> set ops \<or> ''Aggregate'' \<in> set ops) \<longrightarrow>
      determineComplexity ops rows = Medium) \<and>
   (\<not> rows > 1000000 \<and> \<not> rows > 100000 \<and> ''Join'' \<notin> set ops \<and> ''Aggregate'' \<notin> set ops \<longrightarrow>
      determineComplexity ops rows = Low) \<and>
   (''Join'' \<notin> set ops \<and> ''Aggregate'' \<notin> set ops \<longrightarrow> determineComplexity ops 1500000 = High) \<and>
   (''Join'' \<in> set ops \<and> ''Aggregate'' \<in> set ops \<longrightarrow> determineComplexity ops 50000 = High) \<and>
   determineComplexity [''Filter''] 150000 = Medium \<and>
   determineComplexity [''Filter''] 500 = Low"
  by (simp add: determineComplexity_def)

theorem determineComplexity_precedence_witness:
  "determineComplexity [''TableScan''] 1000001 = High \<and>
   determineComplexity [''Join'', ''Aggregate''] 1000000 = High \<and>
   determineComplexity [''Aggregate''] 100001 = Medium \<and>
   determineComplexity [''Join'', ''Filter''] 100000 = Medium \<and>
   determineComplexity [''TableScan'', ''Filter''] 100000 = Low \<and>
   determineComplexity [''TableScan''] 1500000 = High \<and>
   determineComplexity [''Join'', ''Aggregate''] 50000 = High"
  using determineComplexity_precedence [of 1000001 "[''TableScan'']"]
    determineComplexity_precedence [of 1000000 "[''Join'', ''Aggregate'']"]
    determineComplexity_precedence [of 100001 "[''Aggregate'']"]
    determineComplexity_precedence [of 100000 "[''Join'', ''Filter'']"]
    determineComplexity_precedence [of 100000 "[''TableScan'', ''Filter'']"]
  by simp

lemma rowTexts_None: "rowTexts rows = None \<longleftrightarrow> (\<exists>r\<in>set rows. rowText r = None)"
  by (induction rows) (auto split: option.splits)

text \<open>
  C5. The analyser returns an analysis for every list of rows and never an
  error: whatever its inner parsing raises, the result is zero estimated rows,
  the summary that the plan could not be analysed, no operations and medium
  complexity. That is so when a row cannot be read as text, when the joined plan
  text is longer than the host allows, and when the row hints are more than the
  host takes as arguments.
\<close>

theorem parseExplainOutput_degrades:
  "(\<forall>e. analysePlan host toLocaleString rows = Inl e \<longrightarrow>
      parseExplainOutput host toLocaleString rows =
        \<lparr>estimatedRows = 0, summary = ''Unable to analyze query plan'',
         operations = [], complexity = Medium\<rparr>) \<and>
   ((\<exists>r\<in>set rows. rowText r = None) \<longrightarrow>
      parseExplainOutput host toLocaleString rows =
        \<lparr>estimatedRows = 0, summary = ''Unable to analyze query plan'',
         operations = [], complexity = Medium\<rparr>) \<and>
   (\<forall>texts. rowTexts rows = Some texts \<and>
      maxStringLength host < length (join [CHR 0x0A] texts) \<longrightarrow>
      parseExplainOutput host toLocaleString rows =
        \<lparr>estimatedRows = 0, summary = ''Unable to analyze query plan'',
         operations = [], complexity = Medium\<rparr>) \<and>
   (\<forall>texts. rowTexts rows = Some texts \<and>
      maxArguments host < Suc (length (extractRowEstimates (join [CHR 0x0A] texts))) \<longrightarrow>
      parseExplainOutput host toLocaleString rows =
        \<lparr>estimatedRows = 0, summary = ''Unable to analyze query plan'',
         operations = [], complexity = Medium\<rparr>)"
proof (intro conjI allI impI)
  fix e assume "analysePlan host toLocaleString rows = Inl e"
  then show "parseExplainOutput host toLocaleString rows =
      \<lparr>estimatedRows = 0, summary = ''Unable to analyze query plan'',
       operations = [], complexity = Medium\<rparr>"
    by (simp add: parseExplainOutput_def)
next
  assume "\<exists>r\<in>set rows. rowText r = None"
  then have "rowTexts rows = None" by (simp add: rowTexts_None)
  then show "parseExplainOutput host toLocaleString rows =
      \<lparr>estimatedRows = 0, summary = ''Unable to analyze query plan'',
       operations = [], complexity = Medium\<rparr>"
    by (simp add: parseExplainOutput_def analysePlan_def)
next
  fix texts
  assume "rowTexts rows = Some texts \<and> maxStringLength host < length (join [CHR 0x0A] texts)"
  then show "parseExplainOutput host toLocaleString rows =
      \<lparr>estimatedRows = 0, summary = ''Unable to analyze query plan'',
       operations = [], complexity = Medium\<rparr>"
    by (simp add: parseExplainOutput_def analysePlan_def)
next
  fix texts
  assume "rowTexts rows = Some texts \<and>
    maxArguments host < Suc (length (extractRowEstimates (join [CHR 0x0A] texts)))"
  then show "parseExplainOutput host toLocaleString rows =
      \<lparr>estimatedRows = 0, summary = ''Unable to analyze query plan'',
       operations = [], complexity = Medium\<rparr>"
    by (simp add: parseExplainOutput_def analysePlan_def Let_def)
qed

theorem parseExplainOutput_degrades_witness:
  "rowText Unreadable = None \<and>
   parseExplainOutput smallHost (\<lambda>n. ''12'')
     [PlanRow (Some ''TableScan rows=12'') None None None, Unreadable] =
     \<lparr>estimatedRows = 0, summary = ''Unable to analyze query plan'',
      operations = [], complexity = Medium\<rparr> \<and>
   rowTexts [PlanRow (Some ''rows=1 rows=2 rows=3'') None None None] =
     Some [''rows=1 rows=2 rows=3''] \<and>
   maxArguments smallHost
     < Suc (length (extractRowEstimates (join [CHR 0x0A] [''rows=1 rows=2 rows=3'']))) \<and>
   parseExplainOutput smallHost (\<lambda>n. ''3'')
     [PlanRow (Some ''rows=1 rows=2 rows=3'') None None None] =
     \<lparr>estimatedRows = 0, summary = ''Unable to analyze query plan'',
      operations = [], complexity = Medium\<rparr> \<and>
   rowTexts [PlanRow None None None (Some ''TableScan and Filter and Join and Aggregate'')] =
     Some [''TableScan and Filter and Join and Aggregate''] \<and>
   maxStringLength smallHost
     < length (join [CHR 0x0A] [''TableScan and Filter and Join and Aggregate'']) \<and>
   parseExplainOutput smallHost (\<lambda>n. ''0'')
     [PlanRow None None None (Some ''TableScan and Filter and Join and Aggregate'')] =
     \<lparr>estimatedRows = 0, summary = ''Unable to analyze query plan'',
      operations = [], complexity = Medium\<rparr>"
proof -
  let ?bad = "[PlanRow (Some ''TableScan rows=12'') None None None, Unreadable]"
  let ?many = "[PlanRow (Some ''rows=1 rows=2 rows=3'') None None None]"
  let ?long = "[PlanRow None None None (Some ''TableScan and Filter and Join and Aggregate'')]"
  have h1: "\<exists>r\<in>set ?bad. rowText r = None" by simp
  have h2: "rowTexts ?many = Some [''rows=1 rows=2 rows=3'']" by simp
  have h3: "maxArguments smallHost
      < Suc (length (extractRowEstimates (join [CHR 0x0A] [''rows=1 rows=2 rows=3''])))"
    by code_simp
  have h4: "rowTexts ?long = Some [''TableScan and Filter and Join and Aggregate'']" by simp
  have h5: "maxStringLength smallHost
      < length (join [CHR 0x0A] [''TableScan and Filter and Join and Aggregate''])"
    by code_simp
  have r: "rowText Unreadable = None" by simp
  note t1 = parseExplainOutput_degrades [of smallHost "\<lambda>n. ''12''" ?bad,
      THEN conjunct2, THEN conjunct1, rule_format, OF h1]
  note t2 = parseExplainOutput_degrades [of smallHost "\<lambda>n. ''3''" ?many,
      THEN conjunct2, THEN conjunct2, THEN conjunct2, rule_format, OF conjI [OF h2 h3]]
  note t3 = parseExplainOutput_degrades [of smallHost "\<lambda>n. ''0''" ?long,
      THEN conjunct2, THEN conjunct2, THEN conjunct1, rule_format, OF conjI [OF h4 h5]]
  show ?thesis by (intro conjI r t1 t2 t3 h2 h3 h4 h5)
qed

section \<open>Properties of the schema-conformance validator\<close>

text \<open>
  C6. When a table name extracted behind FROM or JOIN is, upper-cased, not among
  the upper-cased table names of the schema, the verdict is invalid and its
  errors hold the message that names the table and lists every table of the
  schema.
\<close>

theorem validateAgainstSchema_invalid_table:
  assumes "files sid = Some S"
    and "t \<in> set (matchAll tablePattern sql)"
    and "toUpperCase t \<notin> set (map toUpperCase (map fst (tables S)))"
  shows "\<not> isValid (validateAgainstSchema files sql sid) \<and>
    (''Invalid table: '' @ toUpperCase t @ ''. Valid tables: '' @ join '', '' (map fst (tables S)))
      \<in> set (errors (validateAgainstSchema files sql sid))"
proof -
  let ?names = "map fst (tables S)"
  let ?bad = "filter (\<lambda>n. n \<notin> set (map toUpperCase ?names)) (map toUpperCase (matchAll tablePattern sql))"
  from assms(2,3) have "toUpperCase t \<in> set ?bad" by simp
  then have "invalidTableMessage ?names (toUpperCase t) \<in> invalidTableMessage ?names ` set ?bad"
    by (rule imageI)
  then have "invalidTableMessage ?names (toUpperCase t) \<in> set (map (invalidTableMessage ?names) ?bad)"
    by (simp only: set_map)
  moreover have "errors (validateAgainstSchema files sql sid) =
      map (invalidTableMessage ?names) ?bad @
      (if map toUpperCase (matchAll tablePattern sql) = [] then [''No valid tables found in query''] else [])"
    unfolding validateAgainstSchema_def loadSchema_def Let_def
    by (simp only: assms(1) option.case sum.case ValidationResult.select_convs)
  ultimately have "invalidTableMessage ?names (toUpperCase t) \<in> set (errors (validateAgainstSchema files sql sid))"
    by simp
  then show ?thesis
    by (auto simp: validateAgainstSchema_isValid invalidTableMessage_def)
qed

theorem validateAgainstSchema_invalid_table_witness:
  "demoFiles ''sig-v2'' = Some demoSchema \<and>
   ''orders'' \<in> set (matchAll tablePattern ''SELECT d.AGE FROM DATA d JOIN orders o'') \<and>
   toUpperCase ''orders'' \<notin> set (map toUpperCase (map fst (tables demoSchema))) \<and>
   \<not> isValid (validateAgainstSchema demoFiles ''SELECT d.AGE FROM DATA d JOIN orders o'' ''sig-v2'') \<and>
   ''Invalid table: ORDERS. Valid tables: DATA, EMAIL''
     \<in> set (errors (validateAgainstSchema demoFiles
                ''SELECT d.AGE FROM DATA d JOIN orders o'' ''sig-v2''))"
proof -
  have h1: "demoFiles ''sig-v2'' = Some demoSchema"
    by (simp add: demoFiles_def)
  have h2: "''orders'' \<in> set (matchAll tablePattern ''SELECT d.AGE FROM DATA d JOIN orders o'')"
    by code_simp
  have h3: "toUpperCase ''orders'' \<notin> set (map toUpperCase (map fst (tables demoSchema)))"
    by code_simp
  have u: "toUpperCase ''orders'' = ''ORDERS''"
    by code_simp
  have j: "join '', '' (map fst (tables demoSchema)) = ''DATA, EMAIL''"
    by code_simp
  from validateAgainstSchema_invalid_table
    [where files = demoFiles and sid = "''sig-v2''", OF h1 h2 h3] h1 h2 h3
  show ?thesis unfolding u j by simp
qed

lemma fieldWarnings_hit:
  assumes "map_of (tables S) (toUpperCase tn) = Some table"
    and "fieldNames table = Some fs"
    and "toUpperCase fn \<notin> set (map toUpperCase fs)"
  shows "fieldWarnings S (tn, fn) = [fieldWarningMessage (toUpperCase fn) (toUpperCase tn)]"
  using assms by (simp add: fieldWarnings_def Let_def)

lemma schema_errors:
  assumes "files sid = Some S"
  shows "errors (validateAgainstSchema files sql sid) =
      map (invalidTableMessage (map fst (tables S)))
        (filter (\<lambda>n. n \<notin> set (map toUpperCase (map fst (tables S))))
           (map toUpperCase (matchAll tablePattern sql))) @
      (if map toUpperCase (matchAll tablePattern sql) = []
       then [''No valid tables found in query''] else [])"
  unfolding validateAgainstSchema_def loadSchema_def Let_def
  by (simp only: assms option.case sum.case ValidationResult.select_convs)

lemma schema_warnings:
  assumes "files sid = Some S"
  shows "warnings (validateAgainstSchema files sql sid) =
      concat (map (fieldWarnings S) (matchAll fieldPattern sql))"
  unfolding validateAgainstSchema_def loadSchema_def Let_def
  by (simp only: assms option.case sum.case ValidationResult.select_convs)

lemma fieldWarningMessage_no_error:
  "fieldWarningMessage f t \<noteq> invalidTableMessage names n"
  "fieldWarningMessage f t \<noteq> ''No valid tables found in query''"
  by (simp_all add: fieldWarningMessage_def invalidTableMessage_def)

lemma unknown_field_lookup:
  assumes "files sid = Some S"
    and "(tn, fn) \<in> set (matchAll fieldPattern sql)"
    and "map_of (tables S) (toUpperCase tn) = Some table"
    and "fieldNames table = Some fs"
    and "toUpperCase fn \<notin> set (map toUpperCase fs)"
  shows "fieldWarningMessage (toUpperCase fn) (toUpperCase tn)
      \<in> set (warnings (validateAgainstSchema files sql sid)) \<and>
    fieldWarningMessage (toUpperCase fn) (toUpperCase tn)
      \<notin> set (errors (validateAgainstSchema files sql sid)) \<and>
    isValid (validateAgainstSchema files sql sid) =
      (matchAll tablePattern sql \<noteq> [] \<and>
       (\<forall>t\<in>set (matchAll tablePattern sql).
          toUpperCase t \<in> set (map toUpperCase (map fst (tables S)))))"
proof (intro conjI)
  have "fieldWarningMessage (toUpperCase fn) (toUpperCase tn) \<in> set (fieldWarnings S (tn, fn))"
    using fieldWarnings_hit [OF assms(3,4,5)] by simp
  with assms(2) show "fieldWarningMessage (toUpperCase fn) (toUpperCase tn)
      \<in> set (warnings (validateAgainstSchema files sql sid))"
    unfolding schema_warnings [where files = files and sid = sid, OF assms(1)] by (simp only: set_concat set_map) blast
next
  show "fieldWarningMessage (toUpperCase fn) (toUpperCase tn)
      \<notin> set (errors (validateAgainstSchema files sql sid))"
    unfolding schema_errors [where files = files and sid = sid, OF assms(1)]
    by (auto simp: fieldWarningMessage_no_error)
next
  show "isValid (validateAgainstSchema files sql sid) =
      (matchAll tablePattern sql \<noteq> [] \<and>
       (\<forall>t\<in>set (matchAll tablePattern sql).
          toUpperCase t \<in> set (map toUpperCase (map fst (tables S)))))"
    unfolding validateAgainstSchema_isValid schema_errors [where files = files and sid = sid, OF assms(1)]
    by (auto simp: filter_empty_conv)
qed

lemma upper_case_names:
  assumes "map toUpperCase names = names" and "name \<in> set names"
  shows "toUpperCase name = name"
proof -
  from assms(1) have "map toUpperCase names = map id names" by simp
  then have "\<forall>x\<in>set names. toUpperCase x = id x" by (simp only: map_eq_conv)
  with assms(2) show ?thesis by simp
qed

text \<open>
  C7, as the code has it. Let the schema keep its table names in upper case, as
  the repository's schemas do. Take a \<open>table.field\<close> pair that the scan of the
  field pattern extracts, whose table is a table of the schema up to letter case
  and has a field set, and whose upper-cased field is not among the upper-cased
  names of that set. Then the warnings hold the message naming the field, the
  errors do not hold it, and validity is decided by the table names alone: the
  verdict is valid exactly when at least one table was matched and every
  matched table is a table of the schema.
\<close>

theorem validateAgainstSchema_unknown_field:
  assumes "files sid = Some S"
    and "distinct (map fst (tables S))"
    and "map toUpperCase (map fst (tables S)) = map fst (tables S)"
    and "(tn, fn) \<in> set (matchAll fieldPattern sql)"
    and "(name, table) \<in> set (tables S)"
    and "toUpperCase name = toUpperCase tn"
    and "fieldNames table = Some fs"
    and "toUpperCase fn \<notin> set (map toUpperCase fs)"
  shows "fieldWarningMessage (toUpperCase fn) (toUpperCase tn)
      \<in> set (warnings (validateAgainstSchema files sql sid)) \<and>
    fieldWarningMessage (toUpperCase fn) (toUpperCase tn)
      \<notin> set (errors (validateAgainstSchema files sql sid)) \<and>
    isValid (validateAgainstSchema files sql sid) =
      (matchAll tablePattern sql \<noteq> [] \<and>
       (\<forall>t\<in>set (matchAll tablePattern sql).
          toUpperCase t \<in> set (map toUpperCase (map fst (tables S)))))"
proof -
  from assms(5) have "name \<in> set (map fst (tables S))" by force
  with assms(3) have "toUpperCase name = name" by (rule upper_case_names)
  with assms(6) have key: "toUpperCase tn = name" by simp
  from assms(2,5) have "map_of (tables S) name = Some table" by (rule map_of_is_SomeI)
  with key have "map_of (tables S) (toUpperCase tn) = Some table" by simp
  then show ?thesis
    by (rule unknown_field_lookup
        [where files = files and sid = sid, OF assms(1) assms(4) _ assms(7) assms(8)])
qed

theorem validateAgainstSchema_unknown_field_witness:
  "demoFiles ''sig-v2'' = Some demoSchema \<and>
   distinct (map fst (tables demoSchema)) \<and>
   map toUpperCase (map fst (tables demoSchema)) = map fst (tables demoSchema) \<and>
   (''data'', ''Income'') \<in> set (matchAll fieldPattern ''SELECT data.Income FROM DATA'') \<and>
   (''DATA'', \<lparr>description = None, fieldNames = Some [''HOUSEHOLD_ID'', ''AGE'', ''INCOME_HH'']\<rparr>)
     \<in> set (tables demoSchema) \<and>
   toUpperCase ''DATA'' = toUpperCase ''data'' \<and>
   toUpperCase ''Income'' \<notin> set (map toUpperCase [''HOUSEHOLD_ID'', ''AGE'', ''INCOME_HH'']) \<and>
   ''Field INCOME may not exist in table DATA''
     \<in> set (warnings (validateAgainstSchema demoFiles ''SELECT data.Income FROM DATA'' ''sig-v2'')) \<and>
   ''Field INCOME may not exist in table DATA''
     \<notin> set (errors (validateAgainstSchema demoFiles ''SELECT data.Income FROM DATA'' ''sig-v2'')) \<and>
   isValid (validateAgainstSchema demoFiles ''SELECT data.Income FROM DATA'' ''sig-v2'')"
proof -
  let ?table = "\<lparr>description = None, fieldNames = Some [''HOUSEHOLD_ID'', ''AGE'', ''INCOME_HH'']\<rparr>"
  have h1: "demoFiles ''sig-v2'' = Some demoSchema"
    by (simp add: demoFiles_def)
  have h2: "distinct (map fst (tables demoSchema))"
    by code_simp
  have h3: "map toUpperCase (map fst (tables demoSchema)) = map fst (tables demoSchema)"
    by code_simp
  have h4: "(''data'', ''Income'') \<in> set (matchAll fieldPattern ''SELECT data.Income FROM DATA'')"
    by code_simp
  have h5: "(''DATA'', ?table) \<in> set (tables demoSchema)"
    by (simp add: demoSchema_def)
  have h6: "toUpperCase ''DATA'' = toUpperCase ''data''"
    by code_simp
  have h7: "fieldNames ?table = Some [''HOUSEHOLD_ID'', ''AGE'', ''INCOME_HH'']"
    by simp
  have h8: "toUpperCase ''Income'' \<notin> set (map toUpperCase [''HOUSEHOLD_ID'', ''AGE'', ''INCOME_HH''])"
    by code_simp
  have m: "fieldWarningMessage (toUpperCase ''Income'') (toUpperCase ''data'') =
      ''Field INCOME may not exist in table DATA''"
    by code_simp
  have v: "matchAll tablePattern ''SELECT data.Income FROM DATA'' \<noteq> [] \<and>
      list_all (\<lambda>t. toUpperCase t \<in> set (map toUpperCase (map fst (tables demoSchema))))
        (matchAll tablePattern ''SELECT data.Income FROM DATA'')"
    by code_simp
  from validateAgainstSchema_unknown_field
    [where files = demoFiles and sid = "''sig-v2''", OF h1 h2 h3 h4 h5 h6 h7 h8]
    h1 h2 h3 h4 h5 h6 h8 v
  show ?thesis unfolding m by (simp add: list_all_iff)
qed

text \<open>
  C7 as stated fails: this text contains the token \<open>DATA.foo\<close>, \<open>DATA\<close> is a
  table of the schema and \<open>FOO\<close> is none of its fields, yet no warning is given.
  The scan reads \<open>s.DATA\<close> as the pair and resumes behind it.
\<close>

theorem validateAgainstSchema_qualified_name_counterexample:
  "demoFiles ''sig-v2'' = Some demoSchema \<and>
   includesStr ''SELECT s.DATA.foo FROM DATA'' ''DATA.foo'' \<and>
   map_of (tables demoSchema) ''DATA'' =
     Some \<lparr>description = None, fieldNames = Some [''HOUSEHOLD_ID'', ''AGE'', ''INCOME_HH'']\<rparr> \<and>
   toUpperCase ''foo'' \<notin> set (map toUpperCase [''HOUSEHOLD_ID'', ''AGE'', ''INCOME_HH'']) \<and>
   matchAll fieldPattern ''SELECT s.DATA.foo FROM DATA'' = [(''s'', ''DATA'')] \<and>
   validateAgainstSchema demoFiles ''SELECT s.DATA.foo FROM DATA'' ''sig-v2'' =
     \<lparr>isValid = True, errors = [], warnings = []\<rparr>"
  by code_simp

section \<open>Properties of the preview executor\<close>

text \<open>
  C8 does not hold of the code. This text has no row-limit clause: LIMIT is not a
  word of it. It holds the letters of LIMIT inside a column name, so the test
  for a limit succeeds, and whatever the requested maximum is, the text is
  handed to the engine as it is, with no LIMIT clause appended.
\<close>

theorem previewSQL_incidental_limit:
  "\<not> hasLimitClause ''SELECT credit_limit FROM accounts'' \<and>
   previewSQL numberToString ''SELECT credit_limit FROM accounts'' maxRows =
     ''SELECT credit_limit FROM accounts''"
proof -
  have "\<not> hasLimitClause ''SELECT credit_limit FROM accounts''"
    by code_simp
  moreover have "trim ''SELECT credit_limit FROM accounts'' = ''SELECT credit_limit FROM accounts''"
    by code_simp
  moreover have "includesStr (toUpperCase ''SELECT credit_limit FROM accounts'') ''LIMIT''"
    by code_simp
  ultimately show ?thesis by (simp add: previewSQL_def)
qed

section \<open>Properties of the generation adapter\<close>

lemma jsonMatch_None:
  "jsonMatch responseText = None \<longleftrightarrow> CHR ''}'' \<notin> set (dropWhile (\<lambda>c. c \<noteq> CHR ''{'') responseText)"
  by (simp add: jsonMatch_def Let_def)

lemma jsonMatch_Some:
  assumes "jsonMatch responseText = Some s"
  shows "\<exists>pre post. responseText = pre @ s @ post \<and> CHR ''{'' \<notin> set pre \<and> CHR ''}'' \<notin> set post \<and>
           hd s = CHR ''{'' \<and> last s = CHR ''}'' \<and> 2 \<le> length s"
proof -
  let ?open = "\<lambda>c. c \<noteq> CHR ''{''" and ?close = "\<lambda>c. c \<noteq> CHR ''}''"
  let ?from = "dropWhile ?open responseText"
  let ?pre = "takeWhile ?open responseText"
  let ?post = "rev (takeWhile ?close (rev ?from))"
  from assms have mem: "CHR ''}'' \<in> set ?from"
    and s: "s = rev (dropWhile ?close (rev ?from))"
    by (auto simp: jsonMatch_def Let_def split: if_splits)
  have "s @ ?post = rev (takeWhile ?close (rev ?from) @ dropWhile ?close (rev ?from))"
    unfolding s by (simp only: rev_append)
  then have from_eq: "?from = s @ ?post" by simp
  have text_eq: "responseText = ?pre @ s @ ?post"
    using takeWhile_dropWhile_id [of ?open responseText] from_eq by simp
  have pre: "CHR ''{'' \<notin> set ?pre"
    by (auto dest: set_takeWhileD)
  have post: "CHR ''}'' \<notin> set ?post"
    by (auto dest: set_takeWhileD)
  from mem have ne: "dropWhile ?close (rev ?from) \<noteq> []"
    by (simp add: dropWhile_eq_Nil_conv)
  then have "hd (dropWhile ?close (rev ?from)) = CHR ''}''"
    using hd_dropWhile [of ?close "rev ?from"] by simp
  with ne have last: "last s = CHR ''}''" by (simp add: s last_rev)
  from ne have sne: "s \<noteq> []" by (simp add: s)
  from mem have fne: "?from \<noteq> []" by (metis empty_iff list.set(1))
  then have "hd ?from = CHR ''{''"
    using hd_dropWhile [of ?open responseText] by simp
  with from_eq sne have hd: "hd s = CHR ''{''" by (metis hd_append2)
  have "butlast s \<noteq> []"
  proof
    assume "butlast s = []"
    with sne have "s = [last s]" by (metis append_Nil append_butlast_last_id)
    then have "hd s = last s" by (metis list.sel(1))
    with hd last show False by simp
  qed
  then have "length (butlast s) \<noteq> 0" by (simp only: length_0_conv not_False_eq_True)
  then have "2 \<le> length s" by (simp only: length_butlast)
  with text_eq pre post hd last show ?thesis by blast
qed

text \<open>
  C3, as the code has it. The candidate is the part of the response from its
  first opening brace to its last closing brace; there is none exactly when no
  closing brace follows the first opening brace. Without a candidate the adapter
  fails with the extraction error, with a candidate that \<open>JSON.parse\<close> rejects
  it fails with the syntax error, and otherwise it returns what \<open>JSON.parse\<close>
  returns; a failure carries no result.
\<close>

theorem parseResponse_outcomes:
  "(jsonMatch responseText = None \<longrightarrow>
      parseResponse jsonParse responseText =
        Inl (ExtractionError ''Failed to extract JSON from Claude response'')) \<and>
   (\<forall>s. jsonMatch responseText = Some s \<and> jsonParse s = None \<longrightarrow>
      parseResponse jsonParse responseText = Inl JsonSyntaxError) \<and>
   (\<forall>s v. jsonMatch responseText = Some s \<and> jsonParse s = Some v \<longrightarrow>
      parseResponse jsonParse responseText = Inr v) \<and>
   (\<forall>s. jsonMatch responseText = Some s \<longrightarrow>
      (\<exists>pre post. responseText = pre @ s @ post \<and> CHR ''{'' \<notin> set pre \<and> CHR ''}'' \<notin> set post \<and>
         hd s = CHR ''{'' \<and> last s = CHR ''}'' \<and> 2 \<le> length s)) \<and>
   (jsonMatch responseText = None \<longleftrightarrow> CHR ''}'' \<notin> set (dropWhile (\<lambda>c. c \<noteq> CHR ''{'') responseText))"
proof (intro conjI allI impI)
  fix s assume "jsonMatch responseText = Some s"
  then show "\<exists>pre post. responseText = pre @ s @ post \<and> CHR ''{'' \<notin> set pre \<and> CHR ''}'' \<notin> set post \<and>
         hd s = CHR ''{'' \<and> last s = CHR ''}'' \<and> 2 \<le> length s"
    by (rule jsonMatch_Some)
next
  show "jsonMatch responseText = None \<longleftrightarrow> CHR ''}'' \<notin> set (dropWhile (\<lambda>c. c \<noteq> CHR ''{'') responseText)"
    by (rule jsonMatch_None)
qed (simp_all add: parseResponse_def)

theorem parseResponse_outcomes_witness:
  "jsonMatch ''no object here'' = None \<and>
   parseResponse parseEmptyObject ''no object here'' =
     Inl (ExtractionError ''Failed to extract JSON from Claude response'') \<and>
   jsonMatch ''Result: {} Notes: {}'' = Some ''{} Notes: {}'' \<and>
   parseEmptyObject ''{} Notes: {}'' = None \<and>
   parseResponse parseEmptyObject ''Result: {} Notes: {}'' = Inl JsonSyntaxError \<and>
   jsonMatch ''Result: {} done'' = Some ''{}'' \<and>
   parseEmptyObject ''{}'' = Some () \<and>
   parseResponse parseEmptyObject ''Result: {} done'' = Inr ()"
proof -
  have h1: "jsonMatch ''no object here'' = None" by code_simp
  have h2: "jsonMatch ''Result: {} Notes: {}'' = Some ''{} Notes: {}''" by code_simp
  have h3: "parseEmptyObject ''{} Notes: {}'' = None" by code_simp
  have h4: "jsonMatch ''Result: {} done'' = Some ''{}''" by code_simp
  have h5: "parseEmptyObject ''{}'' = Some ()" by code_simp
  from parseResponse_outcomes [of "''no object here''" parseEmptyObject]
    parseResponse_outcomes [of "''Result: {} Notes: {}''" parseEmptyObject]
    parseResponse_outcomes [of "''Result: {} done''" parseEmptyObject]
    h1 h2 h3 h4 h5
  show ?thesis by blast
qed

text \<open>
  C3 as stated fails: the first top-level object of this response is \<open>{}\<close>,
  which parses, but the candidate runs on to the last closing brace and the
  adapter fails.
\<close>

theorem jsonMatch_first_object_counterexample:
  "firstTopLevelObject ''Result: {} Notes: {}'' = Some ''{}'' \<and>
   jsonMatch ''Result: {} Notes: {}'' = Some ''{} Notes: {}'' \<and>
   parseEmptyObject ''{}'' = Some () \<and>
   parseResponse parseEmptyObject ''Result: {} Notes: {}'' = Inl JsonSyntaxError"
  by code_simp

end
